theory Spec2Isabelle
  imports Main "HOL-Library.AList"
begin

section \<open>The Gradle command of jfrog-cli-artifactory\<close>

text \<open>
  A shallow embedding of \<^verbatim>\<open>artifactory/commands/gradle/gradle.go\<close>. The command
  is a record that the methods take and return updated. Every call to a collaborator
  outside this file (configuration reader, scanner, result reader, upload command, build
  executor) takes its result from a record of collaborators and is logged as an event, so
  that a run yields the final command, the sequence of calls it made and what it returned.
  A Go \<^verbatim>\<open>error\<close> is \<open>error option\<close> (\<open>None\<close> is \<^verbatim>\<open>nil\<close>), a pointer
  that may be \<^verbatim>\<open>nil\<close> is an \<open>option\<close>, and a nil dereference is the outcome
  \<open>Panicked\<close>.
\<close>

subsection \<open>Data\<close>

datatype error = Error string

datatype 'a outcome = Returned 'a | Panicked

datatype server_details = Server string

datatype build_configuration = BuildConfiguration string string string

datatype output_format = Table | Json | SimpleJson | Sarif

datatype result = Result "string list"

text \<open>\<^verbatim>\<open>spec.SpecFiles\<close>: only the slice \<^verbatim>\<open>Files\<close> is read here.\<close>

record spec_files =
  Files :: "string list"

text \<open>\<^verbatim>\<open>utils.UploadConfiguration\<close>: only \<^verbatim>\<open>Threads\<close> is written here.\<close>

record upload_configuration =
  Threads :: int

text \<open>
  The upload command as the setters leave it: a field that no setter was called on keeps
  the \<^verbatim>\<open>nil\<close> that \<^verbatim>\<open>NewUploadCommand\<close> gave it.
\<close>

record upload_command =
  uploadConfiguration :: "upload_configuration option"
  buildConfiguration :: "build_configuration option"
  spec :: "spec_files option"
  uploadServerDetails :: "server_details option"

definition NewUploadCommand :: upload_command where
  "NewUploadCommand =
     \<lparr>uploadConfiguration = None, buildConfiguration = None, spec = None,
      uploadServerDetails = None\<rparr>"

subsection \<open>The configuration store (viper)\<close>

text \<open>
  The configuration is a store from dotted keys to values; \<^verbatim>\<open>Set\<close> overrides a key,
  \<^verbatim>\<open>IsSet\<close> holds for a key that has a value or a nested key below it,
  \<^verbatim>\<open>GetString\<close> and \<^verbatim>\<open>GetBool\<close> convert the stored value and give the zero
  value for a missing key. Keys are taken in the normalised (lower-case) form that the
  store compares them in.
\<close>

datatype cfg_value = VString string | VInt int | VBool bool

type_synonym viper = "(string \<times> cfg_value) list"

definition vSet :: "viper \<Rightarrow> string \<Rightarrow> cfg_value \<Rightarrow> viper" where
  "vSet v k x = AList.update k x v"

definition vGet :: "viper \<Rightarrow> string \<Rightarrow> cfg_value option" where
  "vGet v k = map_of v k"

definition IsSet :: "viper \<Rightarrow> string \<Rightarrow> bool" where
  "IsSet v k =
     list_ex (\<lambda>(k', _). k' = k \<or> take (length k + 1) k' = k @ ''.'') v"

fun digits :: "nat \<Rightarrow> nat \<Rightarrow> string" where
  "digits 0 n = []"
| "digits (Suc fuel) n =
     (if n < 10 then [char_of (48 + n)]
      else digits fuel (n div 10) @ [char_of (48 + n mod 10)])"

definition itoa :: "int \<Rightarrow> string" where
  "itoa i =
     (if i < 0 then CHR ''-'' # digits (Suc (nat (- i))) (nat (- i))
      else digits (Suc (nat i)) (nat i))"

definition GetString :: "viper \<Rightarrow> string \<Rightarrow> string" where
  "GetString v k =
     (case vGet v k of
        None \<Rightarrow> ''''
      | Some (VString s) \<Rightarrow> s
      | Some (VInt i) \<Rightarrow> itoa i
      | Some (VBool b) \<Rightarrow> (if b then ''true'' else ''false''))"

definition GetBool :: "viper \<Rightarrow> string \<Rightarrow> bool" where
  "GetBool v k =
     (case vGet v k of
        None \<Rightarrow> False
      | Some (VString s) \<Rightarrow> s \<in> set [''1'', ''t'', ''T'', ''TRUE'', ''true'', ''True'']
      | Some (VInt i) \<Rightarrow> i \<noteq> 0
      | Some (VBool b) \<Rightarrow> b)"

text \<open>\<^verbatim>\<open>fmt.Sprint\<close> of a stored value.\<close>

definition Sprint :: "cfg_value option \<Rightarrow> string" where
  "Sprint x =
     (case x of
        None \<Rightarrow> ''<nil>''
      | Some (VString s) \<Rightarrow> s
      | Some (VInt i) \<Rightarrow> itoa i
      | Some (VBool b) \<Rightarrow> (if b then ''true'' else ''false''))"

text \<open>
  The key names of package \<^verbatim>\<open>build\<close> are declared outside this file; the functions
  that use them take them as a parameter.
\<close>

record build_keys =
  DeployerPrefix :: string
  DeployArtifacts :: string
  Url :: string
  Repo :: string
  ForkCount :: string
  DeployableArtifacts :: string

definition usePlugin :: string where
  "usePlugin = ''useplugin''"

definition useWrapper :: string where
  "useWrapper = ''usewrapper''"

subsection \<open>The command, the collaborators and the calls\<close>

record gradle_command =
  tasks :: "string list"
  configPath :: string
  configuration :: "build_configuration option"
  serverDetails :: "server_details option"
  threads :: int
  detailedSummary :: bool
  xrayScan :: bool
  scanOutputFormat :: output_format
  result :: "result option"
  deploymentDisabled :: bool
  buildArtifactsDetailsFile :: string

definition NewGradleCommand :: gradle_command where
  "NewGradleCommand =
     \<lparr>tasks = [], configPath = '''', configuration = None, serverDetails = None,
      threads = 0, detailedSummary = False, xrayScan = False, scanOutputFormat = Table,
      result = None, deploymentDisabled = False, buildArtifactsDetailsFile = ''''\<rparr>"

text \<open>What the build executor is handed by \<^verbatim>\<open>SetExtractorDetails\<close>.\<close>

record extractor_details =
  dependencyLocalPath :: string
  extractorTasks :: "string list"
  extractorWrapper :: bool
  extractorPlugin :: bool
  extractorProps :: "(string \<times> string) list"

text \<open>
  The collaborators: each field is what the call of that name returns. A pair
  \<open>(value, error)\<close> is a sum where only the error is read on failure, and a pair where
  the source stores the value before it tests the error.
\<close>

record collaborators =
  readConfigFile :: "string \<Rightarrow> error + viper"
  getServerDetails :: "viper \<Rightarrow> server_details option \<times> error option"
  createTempFile :: "error + string"
  tempFileClose :: "string \<Rightarrow> error option"
  doubleWinPathSeparator :: "string \<Rightarrow> string"
  getBuildName :: "build_configuration option \<Rightarrow> error + string"
  getBuildNumber :: "build_configuration option \<Rightarrow> error + string"
  getProject :: "build_configuration option \<Rightarrow> string"
  getOrCreateBuildWithProject :: "string \<Rightarrow> string \<Rightarrow> string \<Rightarrow> error option"
  addGradleModule :: "error option"
  createBuildInfoProps :: "string \<Rightarrow> viper \<Rightarrow> viper \<times> (string \<times> string) list \<times> error option"
  getJfrogDependenciesPath :: "error + string"
  filepathJoin :: "string \<Rightarrow> string \<Rightarrow> string"
  calcDependencies :: "extractor_details \<Rightarrow> error option"
  unmarshalArtifacts :: "string \<Rightarrow> string \<Rightarrow> bool \<Rightarrow> error + result"
  scanDeployableArtifacts ::
    "result option \<Rightarrow> server_details option \<Rightarrow> int \<Rightarrow> output_format \<Rightarrow>
       spec_files option \<times> spec_files option \<times> error option"
  readerClose :: "result option \<Rightarrow> error option"
  uploadRun :: "upload_command \<Rightarrow> error option"

datatype event =
    EvReadConfigFile string
  | EvGetServerDetails viper
  | EvCreateTempFile
  | EvTempFileClose string
  | EvGetOrCreateBuild string string string
  | EvAddGradleModule
  | EvCreateBuildInfoProps string viper
  | EvCalcDependencies extractor_details
  | EvUnmarshalArtifacts string string bool
  | EvScan "result option" "server_details option" int output_format
  | EvReaderClose
  | EvReaderReset
  | EvUploadRun upload_command

subsection \<open>Conditional upload\<close>

text \<open>
  \<^verbatim>\<open>ServerDetails\<close>: reads the server details from the configuration file when the
  command has none. The assignment to the field happens before the error is tested.
\<close>

definition ServerDetails ::
  "collaborators \<Rightarrow> gradle_command \<Rightarrow>
     gradle_command \<times> event list \<times> server_details option \<times> error option" where
  "ServerDetails env gc =
     (case serverDetails gc of
        Some sd \<Rightarrow> (gc, [], Some sd, None)
      | None \<Rightarrow>
          (case readConfigFile env (configPath gc) of
             Inl e \<Rightarrow> (gc, [EvReadConfigFile (configPath gc)], None, Some e)
           | Inr vConfig \<Rightarrow>
               (case getServerDetails env vConfig of
                  (sd, Some e) \<Rightarrow>
                    (gc\<lparr>serverDetails := sd\<rparr>,
                     [EvReadConfigFile (configPath gc), EvGetServerDetails vConfig],
                     None, Some e)
                | (sd, None) \<Rightarrow>
                    (gc\<lparr>serverDetails := sd\<rparr>,
                     [EvReadConfigFile (configPath gc), EvGetServerDetails vConfig],
                     sd, None))))"

text \<open>The two upload commands that \<^verbatim>\<open>conditionalUpload\<close> builds.\<close>

definition binariesUploadCmd :: "gradle_command \<Rightarrow> spec_files \<Rightarrow> upload_command" where
  "binariesUploadCmd gc binariesSpecFile =
     NewUploadCommand
       \<lparr>uploadConfiguration := Some \<lparr>Threads = threads gc\<rparr>,
        buildConfiguration := configuration gc,
        spec := Some binariesSpecFile,
        uploadServerDetails := serverDetails gc\<rparr>"

definition pomUploadCmd :: "gradle_command \<Rightarrow> spec_files \<Rightarrow> upload_command" where
  "pomUploadCmd gc pomSpecFile =
     NewUploadCommand
       \<lparr>buildConfiguration := configuration gc,
        spec := Some pomSpecFile,
        uploadServerDetails := serverDetails gc\<rparr>"

text \<open>
  The reader's disposal, right after the scan returns: close it when no detailed summary
  was requested, reset it otherwise.
\<close>

definition disposeReader ::
  "collaborators \<Rightarrow> gradle_command \<Rightarrow> event list \<times> error option" where
  "disposeReader env gc =
     (if \<not> detailedSummary gc then ([EvReaderClose], readerClose env (result gc))
      else ([EvReaderReset], None))"

text \<open>
  The two upload phases, entered with the scan's error already found \<^verbatim>\<open>nil\<close>:
  \<^verbatim>\<open>err\<close> is therefore \<^verbatim>\<open>nil\<close> unless an upload sets it.
  \<^verbatim>\<open>len(pomSpecFile.Files)\<close> dereferences the pointer unchecked.
\<close>

definition uploadPhases ::
  "collaborators \<Rightarrow> gradle_command \<Rightarrow> spec_files option \<Rightarrow> spec_files option \<Rightarrow>
     event list \<times> error option outcome" where
  "uploadPhases env gc binariesSpecFile pomSpecFile =
     (case binariesSpecFile of
        None \<Rightarrow> ([], Returned None)
      | Some b \<Rightarrow>
          let (tr, err) =
                (if Files b \<noteq> []
                 then ([EvUploadRun (binariesUploadCmd gc b)],
                       uploadRun env (binariesUploadCmd gc b))
                 else ([], None))
          in if err \<noteq> None then (tr, Returned err)
             else (case pomSpecFile of
                     None \<Rightarrow> (tr, Panicked)
                   | Some p \<Rightarrow>
                       if Files p \<noteq> []
                       then (tr @ [EvUploadRun (pomUploadCmd gc p)],
                             Returned (uploadRun env (pomUploadCmd gc p)))
                       else (tr, Returned err)))"

definition conditionalUpload ::
  "collaborators \<Rightarrow> gradle_command \<Rightarrow>
     gradle_command \<times> event list \<times> error option outcome" where
  "conditionalUpload env gc0 =
     (case ServerDetails env gc0 of
        (gc, tr0, _, Some e) \<Rightarrow> (gc, tr0, Returned (Some e))
      | (gc, tr0, _, None) \<Rightarrow>
          (case scanDeployableArtifacts env (result gc) (serverDetails gc) (threads gc)
                  (scanOutputFormat gc) of
             (binariesSpecFile, pomSpecFile, err) \<Rightarrow>
               let tr1 = tr0 @ [EvScan (result gc) (serverDetails gc) (threads gc)
                                  (scanOutputFormat gc)]
               in (case disposeReader env gc of
                     (tr2, Some e) \<Rightarrow> (gc, tr1 @ tr2, Returned (Some e))
                   | (tr2, None) \<Rightarrow>
                       if err \<noteq> None then (gc, tr1 @ tr2, Returned err)
                       else (case uploadPhases env gc binariesSpecFile pomSpecFile of
                               (tr3, out) \<Rightarrow> (gc, tr1 @ tr2 @ tr3, out)))))"

subsection \<open>Initialisation and the build run\<close>

definition configError :: error where
  "configError =
     Error ''Conditional upload can only be performed if deployer is set in the config''"

definition shouldCreateBuildArtifactsFile :: "gradle_command \<Rightarrow> bool" where
  "shouldCreateBuildArtifactsFile gc =
     ((detailedSummary gc \<and> \<not> deploymentDisabled gc) \<or> xrayScan gc)"

text \<open>
  \<^verbatim>\<open>init\<close>: reads the configuration, refuses a scan without a deployer section,
  records whether deployment is disabled, and creates the artifacts details file when one
  is needed.
\<close>

definition init ::
  "collaborators \<Rightarrow> gradle_command \<Rightarrow> gradle_command \<times> event list \<times> (error + viper)" where
  "init env gc =
     (case readConfigFile env (configPath gc) of
        Inl e \<Rightarrow> (gc, [EvReadConfigFile (configPath gc)], Inl e)
      | Inr vConfig \<Rightarrow>
          if xrayScan gc \<and> \<not> IsSet vConfig ''deployer''
          then (gc, [EvReadConfigFile (configPath gc)], Inl configError)
          else
            let gc1 = gc\<lparr>deploymentDisabled :=
                            xrayScan gc \<or> \<not> IsSet vConfig ''deployer''\<rparr>
            in if shouldCreateBuildArtifactsFile gc1
               then (case createTempFile env of
                       Inl e \<Rightarrow>
                         (gc1, [EvReadConfigFile (configPath gc), EvCreateTempFile], Inl e)
                     | Inr name \<Rightarrow>
                         let gc2 = gc1\<lparr>buildArtifactsDetailsFile :=
                                          doubleWinPathSeparator env name\<rparr>;
                             tr = [EvReadConfigFile (configPath gc), EvCreateTempFile,
                                   EvTempFileClose name]
                         in (case tempFileClose env name of
                               Some e \<Rightarrow> (gc2, tr, Inl e)
                             | None \<Rightarrow> (gc2, tr, Inr vConfig)))
               else (gc1, [EvReadConfigFile (configPath gc)], Inr vConfig))"

definition setDeployFalse :: "build_keys \<Rightarrow> viper \<Rightarrow> viper" where
  "setDeployFalse K vConfig =
     (let v1 = vSet vConfig (DeployerPrefix K @ DeployArtifacts K) (VString ''false'');
          v2 = (if GetString v1 (DeployerPrefix K @ Url K) = []
                then vSet v1 (DeployerPrefix K @ Url K) (VString ''http://empty_url'')
                else v1)
      in if GetString v2 (DeployerPrefix K @ Repo K) = []
         then vSet v2 (DeployerPrefix K @ Repo K) (VString ''empty_repo'')
         else v2)"

text \<open>
  \<^verbatim>\<open>createGradleRunConfig\<close> returns the properties, the wrapper and plugin flags
  and the error; the model also returns the calls made. \<^verbatim>\<open>CreateBuildInfoProps\<close>
  receives the configuration by pointer and may write to it.
\<close>

definition createGradleRunConfig ::
  "build_keys \<Rightarrow> collaborators \<Rightarrow> viper \<Rightarrow> string \<Rightarrow> int \<Rightarrow> bool \<Rightarrow>
     event list \<times> (string \<times> string) list \<times> bool \<times> bool \<times> error option" where
  "createGradleRunConfig K env vConfig deployableArtifactsFile threads' disableDeploy =
     (let wrapper = GetBool vConfig useWrapper;
          v1 = (if threads' > 0 then vSet vConfig (ForkCount K) (VInt threads') else vConfig);
          v2 = (if disableDeploy then setDeployFalse K v1 else v1)
      in (case createBuildInfoProps env deployableArtifactsFile v2 of
            (v3, props, Some e) \<Rightarrow>
              ([EvCreateBuildInfoProps deployableArtifactsFile v2], props, wrapper, False,
               Some e)
          | (v3, props, None) \<Rightarrow>
              ([EvCreateBuildInfoProps deployableArtifactsFile v2],
               (if deployableArtifactsFile \<noteq> []
                then AList.update (DeployableArtifacts K)
                       (Sprint (vGet v3 (DeployableArtifacts K))) props
                else props),
               wrapper, GetBool v3 usePlugin, None)))"

text \<open>
  \<^verbatim>\<open>runGradle\<close>: \<open>calcDependencies\<close> stands for the executor's run with its exit
  code already converted to the error that is returned.
\<close>

definition runGradle ::
  "build_keys \<Rightarrow> collaborators \<Rightarrow> viper \<Rightarrow> string list \<Rightarrow> string \<Rightarrow>
     build_configuration option \<Rightarrow> int \<Rightarrow> bool \<Rightarrow> event list \<times> error option" where
  "runGradle K env vConfig tasks' deployableArtifactsFile configuration' threads'
       disableDeploy =
     (case getBuildName env configuration' of
        Inl e \<Rightarrow> ([], Some e)
      | Inr buildName \<Rightarrow>
     (case getBuildNumber env configuration' of
        Inl e \<Rightarrow> ([], Some e)
      | Inr buildNumber \<Rightarrow>
     (let tr1 = [EvGetOrCreateBuild buildName buildNumber (getProject env configuration')]
      in case getOrCreateBuildWithProject env buildName buildNumber
                (getProject env configuration') of
        Some e \<Rightarrow> (tr1, Some e)
      | None \<Rightarrow>
     (case addGradleModule env of
        Some e \<Rightarrow> (tr1 @ [EvAddGradleModule], Some e)
      | None \<Rightarrow>
     (case createGradleRunConfig K env vConfig deployableArtifactsFile threads'
             disableDeploy of
        (tr2, props, wrapper, plugin, Some e) \<Rightarrow>
          (tr1 @ [EvAddGradleModule] @ tr2, Some e)
      | (tr2, props, wrapper, plugin, None) \<Rightarrow>
     (case getJfrogDependenciesPath env of
        Inl e \<Rightarrow> (tr1 @ [EvAddGradleModule] @ tr2, Some e)
      | Inr dependenciesPath \<Rightarrow>
          let d = \<lparr>dependencyLocalPath = filepathJoin env dependenciesPath ''gradle'',
                   extractorTasks = tasks', extractorWrapper = wrapper,
                   extractorPlugin = plugin, extractorProps = props\<rparr>
          in (tr1 @ [EvAddGradleModule] @ tr2 @ [EvCalcDependencies d],
              calcDependencies env d)))))))"

definition unmarshalDeployableArtifacts ::
  "collaborators \<Rightarrow> gradle_command \<Rightarrow> string \<Rightarrow>
     gradle_command \<times> event list \<times> error option" where
  "unmarshalDeployableArtifacts env gc filesPath =
     (case unmarshalArtifacts env filesPath (configPath gc) (xrayScan gc) of
        Inl e \<Rightarrow> (gc, [EvUnmarshalArtifacts filesPath (configPath gc) (xrayScan gc)], Some e)
      | Inr r \<Rightarrow>
          (gc\<lparr>result := Some r\<rparr>,
           [EvUnmarshalArtifacts filesPath (configPath gc) (xrayScan gc)], None))"

definition Run ::
  "build_keys \<Rightarrow> collaborators \<Rightarrow> gradle_command \<Rightarrow>
     gradle_command \<times> event list \<times> error option outcome" where
  "Run K env gc =
     (case init env gc of
        (gc1, tr1, Inl e) \<Rightarrow> (gc1, tr1, Returned (Some e))
      | (gc1, tr1, Inr vConfig) \<Rightarrow>
     (case runGradle K env vConfig (tasks gc1) (buildArtifactsDetailsFile gc1)
             (configuration gc1) (threads gc1) (xrayScan gc1) of
        (tr2, Some e) \<Rightarrow> (gc1, tr1 @ tr2, Returned (Some e))
      | (tr2, None) \<Rightarrow>
          if buildArtifactsDetailsFile gc1 \<noteq> []
          then (case unmarshalDeployableArtifacts env gc1 (buildArtifactsDetailsFile gc1) of
                  (gc2, tr3, Some e) \<Rightarrow> (gc2, tr1 @ tr2 @ tr3, Returned (Some e))
                | (gc2, tr3, None) \<Rightarrow>
                    if xrayScan gc2
                    then (case conditionalUpload env gc2 of
                            (gc3, tr4, out) \<Rightarrow> (gc3, tr1 @ tr2 @ tr3 @ tr4, out))
                    else (gc2, tr1 @ tr2 @ tr3, Returned None))
          else (gc1, tr1 @ tr2, Returned None)))"

subsection \<open>Observations on a sequence of calls\<close>

fun uploads :: "event list \<Rightarrow> upload_command list" where
  "uploads [] = []"
| "uploads (EvUploadRun c # tr) = c # uploads tr"
| "uploads (_ # tr) = uploads tr"

text \<open>The configurations that a run handed to \<^verbatim>\<open>CreateBuildInfoProps\<close>.\<close>

fun runConfigs :: "event list \<Rightarrow> viper list" where
  "runConfigs [] = []"
| "runConfigs (EvCreateBuildInfoProps _ v # tr) = v # runConfigs tr"
| "runConfigs (_ # tr) = runConfigs tr"

subsection \<open>A sample run\<close>

definition sampleKeys :: build_keys where
  "sampleKeys =
     \<lparr>DeployerPrefix = ''deployer.'', DeployArtifacts = ''deployartifacts'', Url = ''url'',
      Repo = ''repo'', ForkCount = ''forkcount'',
      DeployableArtifacts = ''deployable.artifacts.map''\<rparr>"

definition sampleConfig :: viper where
  "sampleConfig =
     [(''type'', VString ''gradle''), (''deployer.serverid'', VString ''srv''),
      (''deployer.repo'', VString ''libs-release'')]"

definition resolverOnlyConfig :: viper where
  "resolverOnlyConfig =
     [(''type'', VString ''gradle''), (''resolver.serverid'', VString ''srv''),
      (''resolver.repo'', VString ''libs-release'')]"

definition sampleEnv :: collaborators where
  "sampleEnv =
     \<lparr>readConfigFile = (\<lambda>p. Inr sampleConfig),
      getServerDetails = (\<lambda>v. (Some (Server ''srv''), None)),
      createTempFile = Inr ''/tmp/artifacts'',
      tempFileClose = (\<lambda>n. None),
      doubleWinPathSeparator = (\<lambda>n. n),
      getBuildName = (\<lambda>c. Inr ''build''),
      getBuildNumber = (\<lambda>c. Inr ''1''),
      getProject = (\<lambda>c. []),
      getOrCreateBuildWithProject = (\<lambda>a b c. None),
      addGradleModule = None,
      createBuildInfoProps = (\<lambda>f v. (v, [], None)),
      getJfrogDependenciesPath = Inr ''/deps'',
      filepathJoin = (\<lambda>a b. a @ ''/'' @ b),
      calcDependencies = (\<lambda>d. None),
      unmarshalArtifacts = (\<lambda>f c x. Inr (Result [''a.jar'', ''a.pom''])),
      scanDeployableArtifacts =
        (\<lambda>r s t f. (Some \<lparr>Files = [''a.jar'']\<rparr>, Some \<lparr>Files = [''a.pom'']\<rparr>, None)),
      readerClose = (\<lambda>r. None),
      uploadRun = (\<lambda>c. None)\<rparr>"

definition sampleCommand :: gradle_command where
  "sampleCommand =
     NewGradleCommand
       \<lparr>tasks := [''build''], configPath := ''gradle.yaml'',
        serverDetails := Some (Server ''srv''), threads := 5, xrayScan := True,
        result := Some (Result [''a.jar'', ''a.pom''])\<rparr>"

text \<open>Variations of the sample collaborators and commands.\<close>

definition scanFailedEnv :: collaborators where
  "scanFailedEnv = sampleEnv\<lparr>scanDeployableArtifacts := (\<lambda>r s t f. (None, None, None))\<rparr>"

definition emptyBinariesEnv :: collaborators where
  "emptyBinariesEnv =
     sampleEnv\<lparr>scanDeployableArtifacts :=
                 (\<lambda>r s t f. (Some \<lparr>Files = []\<rparr>, Some \<lparr>Files = [''a.pom'']\<rparr>, None))\<rparr>"

definition closeFailsEnv :: collaborators where
  "closeFailsEnv =
     sampleEnv\<lparr>scanDeployableArtifacts :=
                 (\<lambda>r s t f. (None, None, Some (Error ''scan failed''))),
               readerClose := (\<lambda>r. Some (Error ''close failed''))\<rparr>"

definition uploadFailsEnv :: collaborators where
  "uploadFailsEnv = sampleEnv\<lparr>uploadRun := (\<lambda>c. Some (Error ''upload failed''))\<rparr>"

definition nilPomEnv :: collaborators where
  "nilPomEnv =
     sampleEnv\<lparr>scanDeployableArtifacts :=
                 (\<lambda>r s t f. (Some \<lparr>Files = [''a.jar'']\<rparr>, None, None))\<rparr>"

definition resolverOnlyEnv :: collaborators where
  "resolverOnlyEnv = sampleEnv\<lparr>readConfigFile := (\<lambda>p. Inr resolverOnlyConfig)\<rparr>"

definition buildCommand :: gradle_command where
  "buildCommand = NewGradleCommand\<lparr>tasks := [''build''], configPath := ''gradle.yaml''\<rparr>"

definition summaryCommand :: gradle_command where
  "summaryCommand = buildCommand\<lparr>detailedSummary := True\<rparr>"

definition bothEmptyEnv :: collaborators where
  "bothEmptyEnv =
     sampleEnv\<lparr>scanDeployableArtifacts :=
                 (\<lambda>r s t f. (Some \<lparr>Files = []\<rparr>, Some \<lparr>Files = []\<rparr>, None))\<rparr>"

definition closeFailsOnVerdictEnv :: collaborators where
  "closeFailsOnVerdictEnv =
     scanFailedEnv\<lparr>readerClose := (\<lambda>r. Some (Error ''close failed''))\<rparr>"

definition tempFileFailsEnv :: collaborators where
  "tempFileFailsEnv = sampleEnv\<lparr>createTempFile := Inl (Error ''no temp file'')\<rparr>"

text \<open>
  The artifacts details file exists after a run when the run called
  \<^verbatim>\<open>CreateTempFile\<close> and the call returned a file.
\<close>

definition artifactsFileCreated :: "collaborators \<Rightarrow> event list \<Rightarrow> bool" where
  "artifactsFileCreated env tr =
     (EvCreateTempFile \<in> set tr \<and> (case createTempFile env of Inl _ \<Rightarrow> False | Inr _ \<Rightarrow> True))"

section \<open>Properties\<close>

subsection \<open>What disabling deployment writes\<close>

lemma GetString_vSet:
  "GetString (vSet v k (VString s)) k' = (if k' = k then s else GetString v k')"
  by (simp add: GetString_def vGet_def vSet_def update_conv')

lemma setDeployFalse_forces:
  assumes "DeployArtifacts K \<noteq> Url K" and "DeployArtifacts K \<noteq> Repo K" and "Url K \<noteq> Repo K"
  shows "GetString (setDeployFalse K v) (DeployerPrefix K @ DeployArtifacts K) = ''false''"
    and "GetString (setDeployFalse K v) (DeployerPrefix K @ Url K) =
           (if GetString v (DeployerPrefix K @ Url K) = [] then ''http://empty_url''
            else GetString v (DeployerPrefix K @ Url K))"
    and "GetString (setDeployFalse K v) (DeployerPrefix K @ Repo K) =
           (if GetString v (DeployerPrefix K @ Repo K) = [] then ''empty_repo''
            else GetString v (DeployerPrefix K @ Repo K))"
  using assms by (simp_all add: setDeployFalse_def Let_def GetString_vSet)

lemma scan_run_config_forced:
  "runConfigs (fst (createGradleRunConfig K env v f n True)) =
     [setDeployFalse K (if n > 0 then vSet v (ForkCount K) (VInt n) else v)]"
  by (simp add: createGradleRunConfig_def Let_def split: prod.splits option.splits)

subsection \<open>Conditional upload, initialisation and the run\<close>

lemma ServerDetails_keeps:
  assumes "ServerDetails env gc = (gc1, tr0, sd, err)"
  shows "detailedSummary gc1 = detailedSummary gc" and "result gc1 = result gc"
    and "threads gc1 = threads gc" and "configuration gc1 = configuration gc"
    and "uploads tr0 = []" and "count_list tr0 EvReaderClose = 0"
    and "count_list tr0 EvReaderReset = 0"
  using assms
  by (auto simp: ServerDetails_def split: option.splits sum.splits prod.splits)

lemma uploads_append: "uploads (xs @ ys) = uploads xs @ uploads ys"
  by (induction xs rule: uploads.induct) simp_all

lemma uploadPhases_trace:
  "fst (uploadPhases env gc b p) = map EvUploadRun (uploads (fst (uploadPhases env gc b p)))"
  by (auto simp: uploadPhases_def Let_def split: option.splits)

lemma count_list_uploads:
  "count_list (map EvUploadRun cs) EvReaderClose = 0"
  "count_list (map EvUploadRun cs) EvReaderReset = 0"
  by (induction cs) simp_all

lemma conditionalUpload_reached:
  assumes "ServerDetails env gc = (gc1, tr0, sd, None)"
    and "scanDeployableArtifacts env (result gc1) (serverDetails gc1) (threads gc1)
           (scanOutputFormat gc1) = (b, p, err)"
  shows "conditionalUpload env gc =
           (gc1,
            tr0 @ [EvScan (result gc1) (serverDetails gc1) (threads gc1) (scanOutputFormat gc1)]
                @ fst (disposeReader env gc1)
                @ (if snd (disposeReader env gc1) = None \<and> err = None
                   then fst (uploadPhases env gc1 b p) else []),
            if snd (disposeReader env gc1) \<noteq> None
            then Returned (snd (disposeReader env gc1))
            else if err \<noteq> None then Returned err
            else snd (uploadPhases env gc1 b p))"
  using assms
  by (auto simp: conditionalUpload_def Let_def split: option.splits prod.splits)

lemma disposeReader_trace:
  "fst (disposeReader env gc) = [if detailedSummary gc then EvReaderReset else EvReaderClose]"
  by (simp add: disposeReader_def)

text \<open>
  Claim C2. In every run of \<^verbatim>\<open>conditionalUpload\<close> that reaches the scan (the
  server details were obtained without error), the calls made are those of
  \<^verbatim>\<open>ServerDetails\<close>, then the scan, then exactly one disposal of the reader, then
  only upload calls: the disposal is \<^verbatim>\<open>Close\<close> when no detailed summary was
  requested and \<^verbatim>\<open>Reset\<close> when one was, it is counted exactly once and the other
  one never, whatever the scan returned (error or verdict).
\<close>

theorem dispose_exactly_once:
  assumes "ServerDetails env gc = (gc1, tr0, sd, None)"
  shows "fst (snd (conditionalUpload env gc)) =
           tr0 @ [EvScan (result gc1) (serverDetails gc1) (threads gc1) (scanOutputFormat gc1),
                  if detailedSummary gc then EvReaderReset else EvReaderClose]
               @ map EvUploadRun (uploads (fst (snd (conditionalUpload env gc))))
         \<and> count_list (fst (snd (conditionalUpload env gc))) EvReaderClose =
             (if detailedSummary gc then 0 else 1)
         \<and> count_list (fst (snd (conditionalUpload env gc))) EvReaderReset =
             (if detailedSummary gc then 1 else 0)"
proof -
  obtain b p err where s: "scanDeployableArtifacts env (result gc1) (serverDetails gc1) (threads gc1)
                  (scanOutputFormat gc1) = (b, p, err)"
    by (cases "scanDeployableArtifacts env (result gc1) (serverDetails gc1) (threads gc1)
                  (scanOutputFormat gc1)") auto
  define X where "X = (if snd (disposeReader env gc1) = None \<and> err = None
                   then fst (uploadPhases env gc1 b p) else [])"
  have X: "X = map EvUploadRun (uploads X)"
    using uploadPhases_trace[of env gc1 b p] by (simp add: X_def)
  have ds: "detailedSummary gc1 = detailedSummary gc"
    using assms by (rule ServerDetails_keeps)
  have c: "count_list tr0 EvReaderClose = 0" "count_list tr0 EvReaderReset = 0"
    "uploads tr0 = []"
    using assms by (rule ServerDetails_keeps)+
  have cX: "count_list X EvReaderClose = 0" "count_list X EvReaderReset = 0"
    using X count_list_uploads[of "uploads X"] by simp_all
  have tr: "fst (snd (conditionalUpload env gc)) =
      tr0 @ [EvScan (result gc1) (serverDetails gc1) (threads gc1) (scanOutputFormat gc1),
             if detailedSummary gc then EvReaderReset else EvReaderClose] @ X"
    using conditionalUpload_reached[OF assms s] ds
    by (simp add: disposeReader_trace X_def)
  have u: "uploads (fst (snd (conditionalUpload env gc))) = uploads X"
    by (simp add: tr uploads_append c)
  show ?thesis
    using X by (simp add: u) (simp add: tr c cX)
qed

text \<open>
  Claim C1, as amended. In every run that reaches the scan, an absent (\<^verbatim>\<open>nil\<close>)
  binaries selection means that no upload call of any kind is issued. When moreover the
  scan returned no error and the disposal of the reader did not fail: with an absent
  binaries selection the run returns \<^verbatim>\<open>nil\<close>; with a present but empty binaries
  selection and a present, empty descriptor selection there is no upload call either and
  the run returns \<^verbatim>\<open>nil\<close>; with a present but empty binaries selection and a
  non-empty descriptor selection the binaries phase is skipped and the only upload call is
  the descriptors upload, whose result the run returns.
\<close>

theorem nil_or_empty_binaries_uploads:
  assumes "ServerDetails env gc = (gc1, tr0, sd, None)"
    and "scanDeployableArtifacts env (result gc1) (serverDetails gc1) (threads gc1)
           (scanOutputFormat gc1) = (b, p, err)"
  shows "(b = None \<longrightarrow> uploads (fst (snd (conditionalUpload env gc))) = [])
         \<and> (err = None \<and> snd (disposeReader env gc1) = None \<longrightarrow>
              (b = None \<longrightarrow> snd (snd (conditionalUpload env gc)) = Returned None)
              \<and> (b = Some bs \<and> Files bs = [] \<and> p = Some ps \<and> Files ps = [] \<longrightarrow>
                   uploads (fst (snd (conditionalUpload env gc))) = []
                   \<and> snd (snd (conditionalUpload env gc)) = Returned None)
              \<and> (b = Some bs \<and> Files bs = [] \<and> p = Some ps \<and> Files ps \<noteq> [] \<longrightarrow>
                   uploads (fst (snd (conditionalUpload env gc))) = [pomUploadCmd gc1 ps]
                   \<and> snd (snd (conditionalUpload env gc)) =
                       Returned (uploadRun env (pomUploadCmd gc1 ps))))"
  using ServerDetails_keeps(5)[OF assms(1)]
  by (simp add: conditionalUpload_reached[OF assms] uploads_append uploadPhases_def
        disposeReader_def)

text \<open>
  Claim C5. When the binaries-phase upload returns an error, the only upload call of the
  run is the binaries one (the descriptors upload is never issued) and
  \<^verbatim>\<open>conditionalUpload\<close> returns that same error.
\<close>

theorem binaries_failure_skips_descriptors:
  assumes "ServerDetails env gc = (gc1, tr0, sd, None)"
    and "scanDeployableArtifacts env (result gc1) (serverDetails gc1) (threads gc1)
           (scanOutputFormat gc1) = (Some b, pom, None)"
    and "snd (disposeReader env gc1) = None"
    and "Files b \<noteq> []"
    and "uploadRun env (binariesUploadCmd gc1 b) = Some e"
  shows "uploads (fst (snd (conditionalUpload env gc))) = [binariesUploadCmd gc1 b]
         \<and> snd (snd (conditionalUpload env gc)) = Returned (Some e)"
  using ServerDetails_keeps(5)[OF assms(1)] assms(3-5)
  by (simp add: conditionalUpload_reached[OF assms(1,2)] uploads_append uploadPhases_def
        disposeReader_def split: if_splits)

text \<open>
  Claim C6. When both selections are non-empty and both uploads succeed, the upload calls
  of the run are exactly two, the binaries upload first and the descriptors upload second,
  and the run returns \<^verbatim>\<open>nil\<close>.
\<close>

theorem binaries_before_descriptors:
  assumes "ServerDetails env gc = (gc1, tr0, sd, None)"
    and "scanDeployableArtifacts env (result gc1) (serverDetails gc1) (threads gc1)
           (scanOutputFormat gc1) = (Some b, Some p, None)"
    and "snd (disposeReader env gc1) = None"
    and "Files b \<noteq> []" and "Files p \<noteq> []"
    and "uploadRun env (binariesUploadCmd gc1 b) = None"
    and "uploadRun env (pomUploadCmd gc1 p) = None"
  shows "uploads (fst (snd (conditionalUpload env gc))) =
           [binariesUploadCmd gc1 b, pomUploadCmd gc1 p]
         \<and> snd (snd (conditionalUpload env gc)) = Returned None"
  using ServerDetails_keeps(5)[OF assms(1)] assms(3-7)
  by (simp add: conditionalUpload_reached[OF assms(1,2)] uploads_append uploadPhases_def
        disposeReader_def split: if_splits)

text \<open>
  Claim C8. The descriptor selection is dereferenced without a \<^verbatim>\<open>nil\<close> check:
  with a present binaries selection (scan without error, reader disposed without error),
  \<^verbatim>\<open>conditionalUpload\<close> ends in a nil dereference exactly when the descriptor
  selection is \<^verbatim>\<open>nil\<close> and the descriptors phase is reached (the binaries
  selection is empty or its upload succeeded).
\<close>

theorem nil_descriptors_panics:
  assumes "ServerDetails env gc = (gc1, tr0, sd, None)"
    and "scanDeployableArtifacts env (result gc1) (serverDetails gc1) (threads gc1)
           (scanOutputFormat gc1) = (Some b, pom, None)"
    and "snd (disposeReader env gc1) = None"
  shows "snd (snd (conditionalUpload env gc)) = Panicked \<longleftrightarrow>
           pom = None \<and> (Files b = [] \<or> uploadRun env (binariesUploadCmd gc1 b) = None)"
  using assms(3)
  by (auto simp: conditionalUpload_reached[OF assms(1,2)] uploadPhases_def
        split: if_splits option.splits)

text \<open>
  Claim C9. When no detailed summary is requested and closing the reader fails,
  \<^verbatim>\<open>conditionalUpload\<close> returns the error of \<^verbatim>\<open>Close\<close>, whatever the
  scan returned (also when the scan itself returned an error), and uploads nothing.
\<close>

theorem close_error_masks_scan_error:
  assumes "ServerDetails env gc = (gc1, tr0, sd, None)"
    and "\<not> detailedSummary gc"
    and "readerClose env (result gc1) = Some e"
  shows "snd (snd (conditionalUpload env gc)) = Returned (Some e)
         \<and> uploads (fst (snd (conditionalUpload env gc))) = []"
proof -
  obtain b p err where s: "scanDeployableArtifacts env (result gc1) (serverDetails gc1) (threads gc1)
                  (scanOutputFormat gc1) = (b, p, err)"
    by (cases "scanDeployableArtifacts env (result gc1) (serverDetails gc1) (threads gc1)
                  (scanOutputFormat gc1)") auto
  have ds: "detailedSummary gc1 = detailedSummary gc"
    using assms(1) by (rule ServerDetails_keeps)
  show ?thesis
    using ServerDetails_keeps(5)[OF assms(1)] assms(2,3) ds
    by (simp add: conditionalUpload_reached[OF assms(1) s] uploads_append disposeReader_def)
qed

lemma runGradle_no_temp:
  "EvCreateTempFile \<notin> set (fst (runGradle K env v ts f c n d))"
  by (auto simp: runGradle_def createGradleRunConfig_def Let_def
        split: sum.splits option.splits prod.splits)

text \<open>
  Claim C4. When a scan is requested and the configuration that was read has no deployer
  section, \<^verbatim>\<open>init\<close> fails with the configuration error, and \<^verbatim>\<open>Run\<close>
  returns it having made no call but the configuration read: the build executor does not
  run, and there is no scan and no upload.
\<close>

theorem scan_without_deployer_is_config_error:
  assumes "xrayScan gc" and "readConfigFile env (configPath gc) = Inr vConfig"
    and "\<not> IsSet vConfig ''deployer''"
  shows "init env gc = (gc, [EvReadConfigFile (configPath gc)], Inl configError)
         \<and> Run K env gc =
             (gc, [EvReadConfigFile (configPath gc)], Returned (Some configError))"
  using assms by (simp add: Run_def init_def)

text \<open>
  Claim C10, as amended. For every \<^verbatim>\<open>init\<close> that has read the configuration:
  it calls \<^verbatim>\<open>CreateTempFile\<close> if and only if the deployer check passes (not: a scan
  requested without a deployer section) and ((a detailed summary is requested and
  deployment is not disabled) or a scan is requested), where deployment is disabled when a
  scan is requested or no deployer section is set; the artifacts details file is created
  if and only if, moreover, that call returns a file. Consequently, with a detailed
  summary requested, no deployer section and no scan, \<^verbatim>\<open>Run\<close> creates no file, and
  a command that had no file path keeps none and never has its result populated.
\<close>

theorem artifacts_file_created_iff:
  assumes "readConfigFile env (configPath gc) = Inr vConfig"
  shows "(EvCreateTempFile \<in> set (fst (snd (init env gc)))) =
           (\<not> (xrayScan gc \<and> \<not> IsSet vConfig ''deployer'')
            \<and> ((detailedSummary gc \<and> \<not> (xrayScan gc \<or> \<not> IsSet vConfig ''deployer''))
                 \<or> xrayScan gc))
         \<and> artifactsFileCreated env (fst (snd (init env gc))) =
           (\<not> (xrayScan gc \<and> \<not> IsSet vConfig ''deployer'')
            \<and> ((detailedSummary gc \<and> \<not> (xrayScan gc \<or> \<not> IsSet vConfig ''deployer''))
                 \<or> xrayScan gc)
            \<and> (\<exists>name. createTempFile env = Inr name))
         \<and> (\<not> (xrayScan gc \<and> \<not> IsSet vConfig ''deployer'') \<longrightarrow>
              deploymentDisabled (fst (init env gc)) =
                (xrayScan gc \<or> \<not> IsSet vConfig ''deployer''))
         \<and> (detailedSummary gc \<and> \<not> IsSet vConfig ''deployer'' \<and> \<not> xrayScan gc \<longrightarrow>
              \<not> artifactsFileCreated env (fst (snd (Run K env gc)))
              \<and> (buildArtifactsDetailsFile gc = [] \<longrightarrow>
                   buildArtifactsDetailsFile (fst (Run K env gc)) = []
                   \<and> result (fst (Run K env gc)) = result gc))"
proof -
  let ?ok = "\<not> (xrayScan gc \<and> \<not> IsSet vConfig ''deployer'')"
  let ?dd = "xrayScan gc \<or> \<not> IsSet vConfig ''deployer''"
  have a: "(EvCreateTempFile \<in> set (fst (snd (init env gc)))) =
           (?ok \<and> ((detailedSummary gc \<and> \<not> ?dd) \<or> xrayScan gc))"
    using assms
    by (auto simp: init_def shouldCreateBuildArtifactsFile_def Let_def
          split: sum.splits option.splits)
  have a': "artifactsFileCreated env (fst (snd (init env gc))) =
           (?ok \<and> ((detailedSummary gc \<and> \<not> ?dd) \<or> xrayScan gc)
            \<and> (\<exists>name. createTempFile env = Inr name))"
    unfolding artifactsFileCreated_def a by (auto split: sum.splits)
  have b: "?ok \<longrightarrow> deploymentDisabled (fst (init env gc)) = ?dd"
    using assms
    by (auto simp: init_def shouldCreateBuildArtifactsFile_def Let_def
          split: sum.splits option.splits)
  have c: "\<not> artifactsFileCreated env (fst (snd (Run K env gc)))
              \<and> (buildArtifactsDetailsFile gc = [] \<longrightarrow>
                   buildArtifactsDetailsFile (fst (Run K env gc)) = []
                   \<and> result (fst (Run K env gc)) = result gc)"
    if h: "detailedSummary gc" "\<not> IsSet vConfig ''deployer''" "\<not> xrayScan gc"
  proof -
    have i: "init env gc =
               (gc\<lparr>deploymentDisabled := True\<rparr>, [EvReadConfigFile (configPath gc)], Inr vConfig)"
      using assms(1) h by (simp add: init_def shouldCreateBuildArtifactsFile_def)
    obtain tr2 e where r: "runGradle K env vConfig (tasks gc) (buildArtifactsDetailsFile gc)
          (configuration gc) (threads gc) False = (tr2, e)"
      by (cases "runGradle K env vConfig (tasks gc) (buildArtifactsDetailsFile gc)
          (configuration gc) (threads gc) False") auto
    have t: "EvCreateTempFile \<notin> set tr2"
      using runGradle_no_temp[of K env vConfig "tasks gc" "buildArtifactsDetailsFile gc"
          "configuration gc" "threads gc" False] r by simp
    have n: "EvCreateTempFile \<notin> set (fst (snd (Run K env gc)))"
      using h(3) r t
      by (cases e)
         (simp_all add: Run_def i unmarshalDeployableArtifacts_def split: sum.splits)
    have f: "buildArtifactsDetailsFile (fst (Run K env gc)) = []
                   \<and> result (fst (Run K env gc)) = result gc"
      if "buildArtifactsDetailsFile gc = []"
      using that h(3) r by (cases e) (simp_all add: Run_def i)
    show ?thesis
      using n f by (simp add: artifactsFileCreated_def)
  qed
  show ?thesis using a a' b c by blast
qed

text \<open>
  Claim C3, evaluated on the sample run with five threads configured: the binaries upload
  carries an upload configuration with the five threads, the descriptors upload carries no
  upload configuration at all.
\<close>

theorem descriptors_upload_has_no_threads:
  "uploads (fst (snd (conditionalUpload sampleEnv sampleCommand))) =
     [binariesUploadCmd sampleCommand \<lparr>Files = [''a.jar'']\<rparr>,
      pomUploadCmd sampleCommand \<lparr>Files = [''a.pom'']\<rparr>]
   \<and> threads sampleCommand = 5
   \<and> uploadConfiguration (binariesUploadCmd sampleCommand \<lparr>Files = [''a.jar'']\<rparr>) =
       Some \<lparr>Threads = 5\<rparr>
   \<and> uploadConfiguration (pomUploadCmd sampleCommand \<lparr>Files = [''a.pom'']\<rparr>) = None"
  by (simp add: conditionalUpload_def ServerDetails_def sampleEnv_def sampleCommand_def
        NewGradleCommand_def disposeReader_def uploadPhases_def binariesUploadCmd_def
        pomUploadCmd_def NewUploadCommand_def)

text \<open>
  Claim C7, evaluated on a run without a scan on a configuration with no deployer section:
  \<^verbatim>\<open>init\<close> records that deployment is disabled, but \<^verbatim>\<open>Run\<close> passes the
  scan flag to \<^verbatim>\<open>runGradle\<close>, so the configuration handed on is the one that was
  read, with no deploy-artifacts flag forced to \<open>false\<close>.
\<close>

theorem no_deployer_without_scan_keeps_deploy:
  "\<not> xrayScan buildCommand
   \<and> \<not> IsSet resolverOnlyConfig ''deployer''
   \<and> deploymentDisabled (fst (Run K resolverOnlyEnv buildCommand))
   \<and> runConfigs (fst (snd (Run K resolverOnlyEnv buildCommand))) = [resolverOnlyConfig]
   \<and> GetString resolverOnlyConfig (DeployerPrefix K @ DeployArtifacts K) \<noteq> ''false''"
  by (simp add: Run_def init_def runGradle_def createGradleRunConfig_def
        shouldCreateBuildArtifactsFile_def resolverOnlyEnv_def sampleEnv_def buildCommand_def
        NewGradleCommand_def IsSet_def resolverOnlyConfig_def GetString_def vGet_def)

text \<open>
  Claim C1 as stated fails. A present but empty binaries selection with a non-empty
  descriptor selection still uploads the descriptors; and a verdict with an absent
  binaries selection (the scan returned no error) followed by a failing
  \<^verbatim>\<open>Close\<close> returns the close error, not success.
\<close>

theorem empty_binaries_counterexample:
  "scanDeployableArtifacts emptyBinariesEnv (result sampleCommand)
          (serverDetails sampleCommand) (threads sampleCommand)
          (scanOutputFormat sampleCommand) =
     (Some \<lparr>Files = []\<rparr>, Some \<lparr>Files = [''a.pom'']\<rparr>, None)
   \<and> uploads (fst (snd (conditionalUpload emptyBinariesEnv sampleCommand))) =
       [pomUploadCmd sampleCommand \<lparr>Files = [''a.pom'']\<rparr>]
   \<and> scanDeployableArtifacts closeFailsOnVerdictEnv (result sampleCommand)
          (serverDetails sampleCommand) (threads sampleCommand)
          (scanOutputFormat sampleCommand) = (None, None, None)
   \<and> snd (snd (conditionalUpload closeFailsOnVerdictEnv sampleCommand)) =
       Returned (Some (Error ''close failed''))"
  by (simp add: conditionalUpload_def ServerDetails_def emptyBinariesEnv_def
        closeFailsOnVerdictEnv_def scanFailedEnv_def
        sampleEnv_def sampleCommand_def NewGradleCommand_def disposeReader_def
        uploadPhases_def)

lemma sample_ServerDetails:
  "ServerDetails env sampleCommand = (sampleCommand, [], Some (Server ''srv''), None)"
  by (simp add: ServerDetails_def sampleCommand_def)

lemma sample_fields:
  "result sampleCommand = Some (Result [''a.jar'', ''a.pom''])"
  "serverDetails sampleCommand = Some (Server ''srv'')"
  "threads sampleCommand = 5"
  "scanOutputFormat sampleCommand = Table"
  "detailedSummary sampleCommand = False"
  "xrayScan sampleCommand = True"
  "configPath sampleCommand = ''gradle.yaml''"
  by (simp_all add: sampleCommand_def NewGradleCommand_def)

text \<open>The sample run closes the reader once and never resets it.\<close>

theorem dispose_exactly_once_witness:
  "ServerDetails sampleEnv sampleCommand = (sampleCommand, [], Some (Server ''srv''), None)
   \<and> count_list (fst (snd (conditionalUpload sampleEnv sampleCommand))) EvReaderClose = 1
   \<and> count_list (fst (snd (conditionalUpload sampleEnv sampleCommand))) EvReaderReset = 0"
  using dispose_exactly_once[OF sample_ServerDetails, of sampleEnv]
  by (simp add: sample_ServerDetails sample_fields)

text \<open>
  A scan that returns no selections, one that returns two empty selections, and one that
  returns an empty binaries selection with one descriptor.
\<close>

theorem nil_or_empty_binaries_uploads_witness:
  "fst (scanDeployableArtifacts scanFailedEnv (result sampleCommand)
          (serverDetails sampleCommand) (threads sampleCommand)
          (scanOutputFormat sampleCommand)) = None
   \<and> scanDeployableArtifacts bothEmptyEnv (result sampleCommand)
          (serverDetails sampleCommand) (threads sampleCommand)
          (scanOutputFormat sampleCommand) =
       (Some \<lparr>Files = []\<rparr>, Some \<lparr>Files = []\<rparr>, None)
   \<and> scanDeployableArtifacts emptyBinariesEnv (result sampleCommand)
          (serverDetails sampleCommand) (threads sampleCommand)
          (scanOutputFormat sampleCommand) =
       (Some \<lparr>Files = []\<rparr>, Some \<lparr>Files = [''a.pom'']\<rparr>, None)
   \<and> uploads (fst (snd (conditionalUpload scanFailedEnv sampleCommand))) = []
   \<and> snd (snd (conditionalUpload scanFailedEnv sampleCommand)) = Returned None
   \<and> uploads (fst (snd (conditionalUpload bothEmptyEnv sampleCommand))) = []
   \<and> snd (snd (conditionalUpload bothEmptyEnv sampleCommand)) = Returned None
   \<and> uploads (fst (snd (conditionalUpload emptyBinariesEnv sampleCommand))) =
       [pomUploadCmd sampleCommand \<lparr>Files = [''a.pom'']\<rparr>]
   \<and> snd (snd (conditionalUpload emptyBinariesEnv sampleCommand)) = Returned None"
proof -
  have s1: "scanDeployableArtifacts scanFailedEnv (result sampleCommand)
        (serverDetails sampleCommand) (threads sampleCommand) (scanOutputFormat sampleCommand) =
        (None, None, None)"
    by (simp add: scanFailedEnv_def)
  have d1: "snd (disposeReader scanFailedEnv sampleCommand) = None"
    by (simp add: disposeReader_def scanFailedEnv_def sampleEnv_def)
  have s2: "scanDeployableArtifacts bothEmptyEnv (result sampleCommand)
        (serverDetails sampleCommand) (threads sampleCommand) (scanOutputFormat sampleCommand) =
        (Some \<lparr>Files = []\<rparr>, Some \<lparr>Files = []\<rparr>, None)"
    by (simp add: bothEmptyEnv_def)
  have d2: "snd (disposeReader bothEmptyEnv sampleCommand) = None"
    by (simp add: disposeReader_def bothEmptyEnv_def sampleEnv_def)
  have s3: "scanDeployableArtifacts emptyBinariesEnv (result sampleCommand)
        (serverDetails sampleCommand) (threads sampleCommand) (scanOutputFormat sampleCommand) =
        (Some \<lparr>Files = []\<rparr>, Some \<lparr>Files = [''a.pom'']\<rparr>, None)"
    by (simp add: emptyBinariesEnv_def)
  have d3: "snd (disposeReader emptyBinariesEnv sampleCommand) = None"
    by (simp add: disposeReader_def emptyBinariesEnv_def sampleEnv_def)
  have u3: "uploadRun emptyBinariesEnv (pomUploadCmd sampleCommand \<lparr>Files = [''a.pom'']\<rparr>) = None"
    by (simp add: emptyBinariesEnv_def sampleEnv_def)
  show ?thesis
    using nil_or_empty_binaries_uploads[OF sample_ServerDetails s1] d1
      nil_or_empty_binaries_uploads[OF sample_ServerDetails s2,
        of "\<lparr>Files = []\<rparr>" "\<lparr>Files = []\<rparr>"] d2
      nil_or_empty_binaries_uploads[OF sample_ServerDetails s3,
        of "\<lparr>Files = []\<rparr>" "\<lparr>Files = [''a.pom'']\<rparr>"] d3 u3 s1 s2 s3
    by simp
qed

text \<open>An upload command that fails: one upload call, and its error is returned.\<close>

theorem binaries_failure_skips_descriptors_witness:
  "ServerDetails uploadFailsEnv sampleCommand = (sampleCommand, [], Some (Server ''srv''), None)
   \<and> uploadRun uploadFailsEnv (binariesUploadCmd sampleCommand \<lparr>Files = [''a.jar'']\<rparr>) =
       Some (Error ''upload failed'')
   \<and> uploads (fst (snd (conditionalUpload uploadFailsEnv sampleCommand))) =
       [binariesUploadCmd sampleCommand \<lparr>Files = [''a.jar'']\<rparr>]
   \<and> snd (snd (conditionalUpload uploadFailsEnv sampleCommand)) =
       Returned (Some (Error ''upload failed''))"
proof -
  have s: "scanDeployableArtifacts uploadFailsEnv (result sampleCommand)
        (serverDetails sampleCommand) (threads sampleCommand) (scanOutputFormat sampleCommand) =
        (Some \<lparr>Files = [''a.jar'']\<rparr>, Some \<lparr>Files = [''a.pom'']\<rparr>, None)"
    by (simp add: uploadFailsEnv_def sampleEnv_def)
  have d: "snd (disposeReader uploadFailsEnv sampleCommand) = None"
    by (simp add: disposeReader_def uploadFailsEnv_def sampleEnv_def)
  have f: "Files \<lparr>Files = [''a.jar'']\<rparr> \<noteq> []"
    by simp
  have u: "uploadRun uploadFailsEnv (binariesUploadCmd sampleCommand \<lparr>Files = [''a.jar'']\<rparr>) =
       Some (Error ''upload failed'')"
    by (simp add: uploadFailsEnv_def)
  show ?thesis
    using binaries_failure_skips_descriptors[OF sample_ServerDetails s d f u] u
    by (simp add: sample_ServerDetails)
qed

text \<open>The sample run uploads the jar selection, then the pom selection.\<close>

theorem binaries_before_descriptors_witness:
  "ServerDetails sampleEnv sampleCommand = (sampleCommand, [], Some (Server ''srv''), None)
   \<and> scanDeployableArtifacts sampleEnv (result sampleCommand) (serverDetails sampleCommand)
        (threads sampleCommand) (scanOutputFormat sampleCommand) =
        (Some \<lparr>Files = [''a.jar'']\<rparr>, Some \<lparr>Files = [''a.pom'']\<rparr>, None)
   \<and> uploads (fst (snd (conditionalUpload sampleEnv sampleCommand))) =
       [binariesUploadCmd sampleCommand \<lparr>Files = [''a.jar'']\<rparr>,
        pomUploadCmd sampleCommand \<lparr>Files = [''a.pom'']\<rparr>]
   \<and> snd (snd (conditionalUpload sampleEnv sampleCommand)) = Returned None"
proof -
  have s: "scanDeployableArtifacts sampleEnv (result sampleCommand)
        (serverDetails sampleCommand) (threads sampleCommand) (scanOutputFormat sampleCommand) =
        (Some \<lparr>Files = [''a.jar'']\<rparr>, Some \<lparr>Files = [''a.pom'']\<rparr>, None)"
    by (simp add: sampleEnv_def)
  have d: "snd (disposeReader sampleEnv sampleCommand) = None"
    by (simp add: disposeReader_def sampleEnv_def)
  have f: "Files \<lparr>Files = [''a.jar'']\<rparr> \<noteq> []" "Files \<lparr>Files = [''a.pom'']\<rparr> \<noteq> []"
    by simp_all
  have u: "uploadRun sampleEnv (binariesUploadCmd sampleCommand \<lparr>Files = [''a.jar'']\<rparr>) = None"
    "uploadRun sampleEnv (pomUploadCmd sampleCommand \<lparr>Files = [''a.pom'']\<rparr>) = None"
    by (simp_all add: sampleEnv_def)
  show ?thesis
    using binaries_before_descriptors[OF sample_ServerDetails s d f u] s
    by (simp add: sample_ServerDetails)
qed

text \<open>A scan that returns binaries and a \<^verbatim>\<open>nil\<close> descriptor selection panics.\<close>

theorem nil_descriptors_panics_witness:
  "ServerDetails nilPomEnv sampleCommand = (sampleCommand, [], Some (Server ''srv''), None)
   \<and> scanDeployableArtifacts nilPomEnv (result sampleCommand) (serverDetails sampleCommand)
        (threads sampleCommand) (scanOutputFormat sampleCommand) =
        (Some \<lparr>Files = [''a.jar'']\<rparr>, None, None)
   \<and> snd (snd (conditionalUpload nilPomEnv sampleCommand)) = Panicked"
proof -
  have s: "scanDeployableArtifacts nilPomEnv (result sampleCommand)
        (serverDetails sampleCommand) (threads sampleCommand) (scanOutputFormat sampleCommand) =
        (Some \<lparr>Files = [''a.jar'']\<rparr>, None, None)"
    by (simp add: nilPomEnv_def)
  have d: "snd (disposeReader nilPomEnv sampleCommand) = None"
    by (simp add: disposeReader_def nilPomEnv_def sampleEnv_def)
  have u: "uploadRun nilPomEnv (binariesUploadCmd sampleCommand \<lparr>Files = [''a.jar'']\<rparr>) = None"
    by (simp add: nilPomEnv_def sampleEnv_def)
  show ?thesis
    using nil_descriptors_panics[OF sample_ServerDetails s d] s u
    by (simp add: sample_ServerDetails)
qed

text \<open>The scan fails and the close fails: the close error is the one returned.\<close>

theorem close_error_masks_scan_error_witness:
  "ServerDetails closeFailsEnv sampleCommand = (sampleCommand, [], Some (Server ''srv''), None)
   \<and> \<not> detailedSummary sampleCommand
   \<and> snd (snd (scanDeployableArtifacts closeFailsEnv (result sampleCommand)
        (serverDetails sampleCommand) (threads sampleCommand)
        (scanOutputFormat sampleCommand))) = Some (Error ''scan failed'')
   \<and> snd (snd (conditionalUpload closeFailsEnv sampleCommand)) =
       Returned (Some (Error ''close failed''))"
proof -
  have n: "\<not> detailedSummary sampleCommand"
    by (simp add: sample_fields)
  have c: "readerClose closeFailsEnv (result sampleCommand) = Some (Error ''close failed'')"
    by (simp add: closeFailsEnv_def)
  show ?thesis
    using close_error_masks_scan_error[OF sample_ServerDetails n c] n
    by (simp add: sample_ServerDetails closeFailsEnv_def)
qed

text \<open>A scan requested on a configuration with a resolver section only.\<close>

theorem scan_without_deployer_is_config_error_witness:
  "xrayScan sampleCommand
   \<and> readConfigFile resolverOnlyEnv (configPath sampleCommand) = Inr resolverOnlyConfig
   \<and> \<not> IsSet resolverOnlyConfig ''deployer''
   \<and> Run sampleKeys resolverOnlyEnv sampleCommand =
       (sampleCommand, [EvReadConfigFile ''gradle.yaml''], Returned (Some configError))"
proof -
  have x: "xrayScan sampleCommand"
    by (simp add: sample_fields)
  have r: "readConfigFile resolverOnlyEnv (configPath sampleCommand) = Inr resolverOnlyConfig"
    by (simp add: resolverOnlyEnv_def)
  have i: "\<not> IsSet resolverOnlyConfig ''deployer''"
    by (simp add: IsSet_def resolverOnlyConfig_def)
  show ?thesis
    using scan_without_deployer_is_config_error[OF x r i, of sampleKeys] x r i
    by (simp add: sample_fields)
qed

text \<open>A detailed summary requested on a configuration with a resolver section only.\<close>

theorem artifacts_file_created_iff_witness:
  "readConfigFile resolverOnlyEnv (configPath summaryCommand) = Inr resolverOnlyConfig
   \<and> detailedSummary summaryCommand \<and> \<not> xrayScan summaryCommand
   \<and> \<not> IsSet resolverOnlyConfig ''deployer''
   \<and> buildArtifactsDetailsFile summaryCommand = []
   \<and> deploymentDisabled (fst (init resolverOnlyEnv summaryCommand))
   \<and> \<not> artifactsFileCreated resolverOnlyEnv (fst (snd (init resolverOnlyEnv summaryCommand)))
   \<and> \<not> artifactsFileCreated resolverOnlyEnv
         (fst (snd (Run sampleKeys resolverOnlyEnv summaryCommand)))
   \<and> result (fst (Run sampleKeys resolverOnlyEnv summaryCommand)) = None
   \<and> xrayScan sampleCommand \<and> IsSet sampleConfig ''deployer''
   \<and> artifactsFileCreated sampleEnv (fst (snd (init sampleEnv sampleCommand)))"
proof -
  have r: "readConfigFile resolverOnlyEnv (configPath summaryCommand) = Inr resolverOnlyConfig"
    by (simp add: resolverOnlyEnv_def)
  have r': "readConfigFile sampleEnv (configPath sampleCommand) = Inr sampleConfig"
    by (simp add: sampleEnv_def)
  have f': "xrayScan sampleCommand" "IsSet sampleConfig ''deployer''"
    "createTempFile sampleEnv = Inr ''/tmp/artifacts''"
    by (simp_all add: sample_fields IsSet_def sampleConfig_def sampleEnv_def)
  have f: "detailedSummary summaryCommand" "\<not> xrayScan summaryCommand"
    "buildArtifactsDetailsFile summaryCommand = []" "result summaryCommand = None"
    by (simp_all add: summaryCommand_def buildCommand_def NewGradleCommand_def)
  have i: "\<not> IsSet resolverOnlyConfig ''deployer''"
    by (simp add: IsSet_def resolverOnlyConfig_def)
  show ?thesis
    using artifacts_file_created_iff[OF r, of sampleKeys]
      artifacts_file_created_iff[OF r', of sampleKeys] r f i f'
    by simp
qed

text \<open>
  Claim C10 as stated fails. With a scan requested and no deployer section the claim's
  condition holds (a scan is requested), yet \<^verbatim>\<open>init\<close> fails the deployer check
  first and creates no file; and with a scan requested and a deployer section, a
  \<^verbatim>\<open>CreateTempFile\<close> that fails leaves no file either.
\<close>

theorem scan_without_deployer_creates_no_file_counterexample:
  "xrayScan sampleCommand
   \<and> \<not> IsSet resolverOnlyConfig ''deployer''
   \<and> readConfigFile resolverOnlyEnv (configPath sampleCommand) = Inr resolverOnlyConfig
   \<and> \<not> artifactsFileCreated resolverOnlyEnv (fst (snd (init resolverOnlyEnv sampleCommand)))
   \<and> buildArtifactsDetailsFile (fst (init resolverOnlyEnv sampleCommand)) = []
   \<and> IsSet sampleConfig ''deployer''
   \<and> readConfigFile tempFileFailsEnv (configPath sampleCommand) = Inr sampleConfig
   \<and> createTempFile tempFileFailsEnv = Inl (Error ''no temp file'')
   \<and> \<not> artifactsFileCreated tempFileFailsEnv (fst (snd (init tempFileFailsEnv sampleCommand)))
   \<and> buildArtifactsDetailsFile (fst (init tempFileFailsEnv sampleCommand)) = []"
  by (simp add: artifactsFileCreated_def init_def resolverOnlyEnv_def tempFileFailsEnv_def
        sampleEnv_def sample_fields IsSet_def resolverOnlyConfig_def sampleConfig_def
        shouldCreateBuildArtifactsFile_def)
     (simp add: sampleCommand_def NewGradleCommand_def)

end
